theory Spec2Isabelle
  imports Complex_Main "HOL-Library.Sublist"
begin

section \<open>Data model (project.go, zen.go)\<close>

text \<open>
  A value decoded by encoding/json into \<^verbatim>\<open>interface{}\<close>: nil, bool, float64, string,
  \<^verbatim>\<open>[]interface{}\<close> or \<^verbatim>\<open>map[string]interface{}\<close>. Every float64 that a JSON text decodes
  to is finite, hence a rational number. A Go map is a partial function on its keys.
\<close>

datatype jvalue =
    JNull
  | JBool bool
  | JNumber rat
  | JString string
  | JArray "jvalue list"
  | JObject "string \<Rightarrow> jvalue option"

text \<open>\<^verbatim>\<open>type UserPreference map[string]interface{}\<close>\<close>

type_synonym UserPreference = "string \<Rightarrow> jvalue option"

text \<open>Go's \<^verbatim>\<open>int\<close> fields hold what the decoder put there; \<^verbatim>\<open>time.Time\<close> is a count of
  nanoseconds since the Unix epoch.\<close>

record Pagination =
  Page :: int
  PerPage :: int
  TotalPages :: int
  Total :: int

record Sources =
  src_ID :: int
  src_GithubOwnerID :: int
  src_Description :: string
  src_FullName :: string
  src_Homepage :: string
  src_HTMLURL :: string
  src_Name :: string
  src_Private :: bool
  src_CreatedAt :: int
  src_UpdatedAt :: int
  src_WebhookVerifiedAt :: int
  src_InitialImportAt :: int

record Workspace =
  ws_ID :: int
  ws_ProjectID :: int
  ws_Description :: string
  ws_Name :: string
  ws_Slug :: string
  ws_Private :: bool
  ws_PriorityFormat :: string
  ws_Priority :: bool
  ws_Points :: bool
  ws_Upvotes :: bool
  ws_CreatedAt :: int
  ws_UpdatedAt :: int
  ws_ArchiveMergedPrs :: bool
  ws_UseCategoryLabels :: bool

record Project =
  ID :: int
  AccountID :: int
  Description :: string
  Name :: string
  CreatedAt :: int
  UpdatedAt :: int
  Slug :: string
  Private :: bool
  PriorityFormat :: string
  Priority :: bool
  Points :: bool
  Triage :: bool
  Upvotes :: bool
  Sources :: "Sources list"
  Workspaces :: "Workspace list"

record UserSetting =
  us_ID :: int
  us_ProjectID :: int
  us_UserID :: int
  us_SubscriptionLevel :: string
  us_CreatedAt :: int

record ProjectsResponse =
  pr_Pagination :: Pagination
  Projects :: "Project list"

record EmailPreferencesResponse =
  epr_Pagination :: Pagination
  UserEmailPreferences :: "UserPreference list"

record UserSettingResponse =
  usr_Pagination :: Pagination
  UserSettings :: "UserSetting list"

subsection \<open>HTTP messages\<close>

text \<open>
  \<^verbatim>\<open>http.Header\<close> keeps, for each key, its values in the order they were added;
  \<^verbatim>\<open>Add\<close> appends and \<^verbatim>\<open>Get\<close> returns the first value of the key, or the empty string.
  The keys the program uses are compared as written.
\<close>

type_synonym Header = "(string \<times> string) list"

definition Header_Add :: "Header \<Rightarrow> string \<Rightarrow> string \<Rightarrow> Header" where
  "Header_Add h k v = h @ [(k, v)]"

definition Header_Get :: "Header \<Rightarrow> string \<Rightarrow> string" where
  "Header_Get h k = (case map_of h k of None \<Rightarrow> [] | Some v \<Rightarrow> v)"

record Request =
  Method :: string
  URL :: string
  Header :: Header
  ReqBody :: "string option"

text \<open>A response: its status, its body text, and whether doRequest (debug mode) has wrapped
  the body in a reader that copies what is read to the log.\<close>

record Response =
  StatusCode :: int
  Body :: string
  Tee :: bool

definition StatusBadRequest :: int where
  "StatusBadRequest = 400"

definition MethodGet :: string where "MethodGet = ''GET''"
definition MethodPost :: string where "MethodPost = ''POST''"
definition MethodPut :: string where "MethodPut = ''PUT''"

subsection \<open>How a call can end\<close>

text \<open>
  A Go call of this program returns normally, returns a non-nil \<^verbatim>\<open>error\<close> (with its message),
  panics (a run-time error such as an index out of range), ends the process
  (\<^verbatim>\<open>log.Fatalf\<close>), or never returns because it waits for a mutex that is held.
\<close>

datatype failure =
    Error string
  | Panic string
  | Fatal string
  | Blocked

type_synonym 'a res = "failure + 'a"

subsection \<open>The client and the world around it\<close>

text \<open>The claims the signer puts into the token; the other fields of
  \<^verbatim>\<open>jwt.StandardClaims\<close> stay at their zero value.\<close>

record StandardClaims =
  IssuedAt :: int
  ExpiresAt :: int
  Issuer :: string

datatype log_event =
    LogDoing string string
  | LogUnexpectedPrefs EmailPreferencesResponse
  | LogUnexpectedSettings UserSettingResponse
  | LogBody string

text \<open>
  The struct \<^verbatim>\<open>client\<close>. \<^verbatim>\<open>httpClient\<close> answers the request it is given; the answer may
  depend on how many requests were sent before. \<^verbatim>\<open>accessMutex\<close> is True while the mutex
  is held.
\<close>

record client =
  clientId :: string
  key :: string
  httpClient :: "nat \<Rightarrow> Request \<Rightarrow> string + Response"
  accessDuration :: int
  apiBaseUrl :: string
  debug :: bool
  accessMutex :: bool
  accessExpiry :: int
  accessToken :: string

text \<open>
  What the run has done so far: the number of readings of the clock, the requests handed to
  \<^verbatim>\<open>httpClient.Do\<close>, the claims handed to \<^verbatim>\<open>SignedString\<close>, the lines logged.
\<close>

record world =
  ticks :: nat
  sent :: "Request list"
  signed :: "StandardClaims list"
  logged :: "log_event list"

text \<open>
  The libraries the program calls, as parameters: the clock (\<^verbatim>\<open>time.Now\<close>, by the number
  of the reading), \<^verbatim>\<open>http.NewRequest\<close>'s check of the URL, jwt-go's \<^verbatim>\<open>Valid\<close> and
  \<^verbatim>\<open>SignedString\<close>, encoding/json's decoders for each target type, and fmt's rendering
  under \<^verbatim>\<open>%s\<close> of a value that is not a string.
\<close>

record env =
  now_at :: "nat \<Rightarrow> int"
  url_error :: "string \<Rightarrow> string option"
  claims_Valid :: "StandardClaims \<Rightarrow> string option"
  SignedString :: "StandardClaims \<Rightarrow> string \<Rightarrow> string + string"
  decode_ProjectsResponse :: "string \<Rightarrow> string + ProjectsResponse"
  decode_EmailPreferencesResponse :: "string \<Rightarrow> string + EmailPreferencesResponse"
  decode_UserSettingResponse :: "string \<Rightarrow> string + UserSettingResponse"
  decode_accessTokenRsp :: "string \<Rightarrow> string + string"
  decode_interface :: "string \<Rightarrow> string + jvalue"
  fmt_bad_verb :: "jvalue \<Rightarrow> string"

definition Minute :: int where
  "Minute = 60 * 1000000000"

definition Unix :: "int \<Rightarrow> int" where
  "Unix t = t div 1000000000"

definition time_Now :: "env \<Rightarrow> world \<Rightarrow> int \<times> world" where
  "time_Now e w = (now_at e (ticks w), w\<lparr>ticks := Suc (ticks w)\<rparr>)"

definition log_Print :: "world \<Rightarrow> log_event \<Rightarrow> world" where
  "log_Print w ev = w\<lparr>logged := logged w @ [ev]\<rparr>"

text \<open>Reading a response body to its end, as the JSON decoder does.\<close>

definition read_Body :: "world \<Rightarrow> Response \<Rightarrow> string \<times> world" where
  "read_Body w rsp = (Body rsp, if Tee rsp then log_Print w (LogBody (Body rsp)) else w)"

section \<open>zen.go\<close>

text \<open>
  The zero \<^verbatim>\<open>time.Time\<close> (January 1 of year 1) as nanoseconds since the Unix epoch.
\<close>

definition zero_Time :: int where
  "zero_Time = - 62135596800 * 1000000000"

definition HttpClientOption :: "(nat \<Rightarrow> Request \<Rightarrow> string + Response) \<Rightarrow> client \<Rightarrow> client" where
  "HttpClientOption httpClient' c = c\<lparr>httpClient := httpClient'\<rparr>"

definition DebugOption :: "bool \<Rightarrow> client \<Rightarrow> client" where
  "DebugOption enabled' c = c\<lparr>debug := enabled'\<rparr>"

text \<open>
  NewClient. \<open>DefaultClient\<close> stands for \<^verbatim>\<open>http.DefaultClient\<close>, which the source puts in
  after the options when none of them has set the HTTP client. An option of this model
  always sets one, so that starting from the default gives the same client.
\<close>

definition NewClient ::
  "(nat \<Rightarrow> Request \<Rightarrow> string + Response) \<Rightarrow> string \<Rightarrow> string \<Rightarrow> (client \<Rightarrow> client) list \<Rightarrow> client" where
  "NewClient DefaultClient clientId' key' options =
     fold (\<lambda>o' c. o' c) options
       \<lparr>clientId = clientId', key = key', httpClient = DefaultClient,
        accessDuration = 1 * Minute, apiBaseUrl = ''https://zube.io/api/'', debug = False,
        accessMutex = False, accessExpiry = zero_Time, accessToken = ''''\<rparr>"

text \<open>
  refreshToken ignores its two parameters and reads the clock itself. Invalid claims end
  the process (\<^verbatim>\<open>log.Fatalf\<close>); a failed signature is returned.
\<close>

definition refreshToken :: "env \<Rightarrow> client \<Rightarrow> world \<Rightarrow> int \<Rightarrow> int \<Rightarrow> string res \<times> world" where
  "refreshToken e c w iat eat =
     (let (now, w1) = time_Now e w;
          claims = \<lparr>IssuedAt = Unix now, ExpiresAt = Unix (now + Minute), Issuer = clientId c\<rparr>
      in case claims_Valid e claims of
           Some err \<Rightarrow> (Inl (Fatal (''invalid claims: '' @ err)), w1)
         | None \<Rightarrow>
             (let w2 = w1\<lparr>signed := signed w1 @ [claims]\<rparr>
              in case SignedString e claims (key c) of
                   Inl err \<Rightarrow> (Inl (Error err), w2)
                 | Inr token \<Rightarrow> (Inr token, w2)))"

definition newRequest :: "env \<Rightarrow> client \<Rightarrow> string \<Rightarrow> string \<Rightarrow> string option \<Rightarrow> Request res" where
  "newRequest e c method api body =
     (case url_error e (apiBaseUrl c @ api) of
        Some err \<Rightarrow> Inl (Error err)
      | None \<Rightarrow>
          Inr \<lparr>Method = method, URL = apiBaseUrl c @ api,
               Header = Header_Add (Header_Add (Header_Add []
                   ''Accept'' ''application/json'')
                   ''Content-Type'' ''application/json'')
                   ''X-Client-ID'' (clientId c),
               ReqBody = body\<rparr>)"

text \<open>Lines 111 to 128 of doRequest: the call of the HTTP client and the check of the status.\<close>

definition doRequest_send :: "client \<Rightarrow> world \<Rightarrow> Request \<Rightarrow> Response res \<times> client \<times> world" where
  "doRequest_send c w req =
     (let w1 = w\<lparr>sent := sent w @ [req]\<rparr>
      in case httpClient c (length (sent w)) req of
           Inl err \<Rightarrow> (Inl (Error err), c, w1)
         | Inr rsp \<Rightarrow>
             if StatusCode rsp = StatusBadRequest
             then (Inl (Error (''bad request: '' @ Body rsp)), c, w1)
             else if debug c then (Inr (rsp\<lparr>Tee := True\<rparr>), c, w1)
             else (Inr rsp, c, w1))"

text \<open>Lines 92 to 94 of doRequest: the line logged in debug mode.\<close>

definition doRequest_log :: "client \<Rightarrow> world \<Rightarrow> Request \<Rightarrow> world" where
  "doRequest_log c w req =
     (if debug c then log_Print w (LogDoing (Method req) (URL req)) else w)"

text \<open>
  doRequest and access call each other: doRequest refreshes the token through access when
  the request has no Authorization header, and access sends its own request, which has
  one, through doRequest. The block of doRequest that holds the mutex (lines 96 to 109) is
  \<open>doRequest_authorize\<close>: it returns the request with the bearer token added. When access
  fails, the block returns at once, with the mutex still held; \<^verbatim>\<open>Lock\<close> on a held mutex
  does not return.
\<close>

function doRequest :: "env \<Rightarrow> client \<Rightarrow> world \<Rightarrow> Request \<Rightarrow> Response res \<times> client \<times> world"
  and doRequest_authorize :: "env \<Rightarrow> client \<Rightarrow> world \<Rightarrow> Request \<Rightarrow> Request res \<times> client \<times> world"
  and access :: "env \<Rightarrow> client \<Rightarrow> world \<Rightarrow> int \<Rightarrow> int \<Rightarrow> string res \<times> client \<times> world"
where
  "doRequest e c w req =
     (let w0 = doRequest_log c w req
      in if Header_Get (Header req) ''Authorization'' = ''''
         then
           (case doRequest_authorize e c w0 req of
              (Inl err, c1, w1) \<Rightarrow> (Inl err, c1, w1)
            | (Inr req1, c1, w1) \<Rightarrow> doRequest_send c1 w1 req1)
         else doRequest_send c w0 req)"
| "doRequest_authorize e c w req =
     (if accessMutex c then (Inl Blocked, c, w)
      else
        (let c1 = c\<lparr>accessMutex := True\<rparr>;
             (stale, w1) =
                (if accessToken c1 = '''' then (True, w)
                 else (let (t, w') = time_Now e w in (accessExpiry c1 < t, w')))
         in if stale
            then
              (let (now, w2) = time_Now e w1;
                   later = now + accessDuration c1
               in case access e c1 w2 now later of
                    (Inl err, c2, w3) \<Rightarrow> (Inl err, c2, w3)
                  | (Inr accessToken', c2, w3) \<Rightarrow>
                      (let c3 = c2\<lparr>accessExpiry := later, accessToken := accessToken'\<rparr>;
                           c4 = c3\<lparr>accessMutex := False\<rparr>
                       in (Inr (req\<lparr>Header := Header_Add (Header req) ''Authorization''
                                                   (''Bearer '' @ accessToken c4)\<rparr>), c4, w3)))
            else
              (let c4 = c1\<lparr>accessMutex := False\<rparr>
               in (Inr (req\<lparr>Header := Header_Add (Header req) ''Authorization''
                                           (''Bearer '' @ accessToken c4)\<rparr>), c4, w1))))"
| "access e c w issueTime expireTime =
     (case refreshToken e c w issueTime expireTime of
        (Inl err, w1) \<Rightarrow> (Inl err, c, w1)
      | (Inr refreshToken', w1) \<Rightarrow>
          (case newRequest e c MethodPost ''users/tokens'' None of
             Inl err \<Rightarrow> (Inl err, c, w1)
           | Inr req \<Rightarrow>
               (case doRequest e c w1
                       (req\<lparr>Header := Header_Add (Header req) ''Authorization''
                                           (''Bearer '' @ refreshToken')\<rparr>) of
                  (Inl err, c2, w2) \<Rightarrow> (Inl err, c2, w2)
                | (Inr rsp, c2, w2) \<Rightarrow>
                    (let (body, w3) = read_Body w2 rsp
                     in case decode_accessTokenRsp e body of
                          Inl err \<Rightarrow> (Inl (Error err), c2, w3)
                        | Inr tok \<Rightarrow> (Inr tok, c2, w3)))))"
  by pat_completeness auto

termination
  apply (relation "measure (\<lambda>x. case x of
      Inl (e, c, w, req) \<Rightarrow> (if Header_Get (Header req) ''Authorization'' = '''' then 3 else 0)
    | Inr (Inl (e, c, w, req)) \<Rightarrow> 2
    | Inr (Inr (e, c, w, issueTime, expireTime)) \<Rightarrow> 1)")
     apply simp
    apply simp
   apply simp
  apply (auto simp: newRequest_def Header_Get_def Header_Add_def split: option.splits)
  done

declare doRequest_authorize.simps [simp del]
declare doRequest.simps [simp del]
declare access.simps [simp del]

text \<open>
  \<^verbatim>\<open>for k, v := range m\<close> visits every key of the map once, in an order that Go leaves
  open: the list \<open>ks\<close> of the two loops below is that order. \<open>v\<close> is the entry of \<open>k\<close> at
  the time of the visit.
\<close>

fun enabled :: "string list \<Rightarrow> UserPreference \<Rightarrow> string list" where
  "enabled [] m = []"
| "enabled (k # ks) m =
     (case m k of
        Some (JBool b) \<Rightarrow> if b then k # enabled ks m else enabled ks m
      | _ \<Rightarrow> enabled ks m)"

fun disableAll :: "string list \<Rightarrow> UserPreference \<Rightarrow> UserPreference" where
  "disableAll [] m = m"
| "disableAll (k # ks) m =
     (case m k of
        Some (JBool b) \<Rightarrow> if b then disableAll ks (m(k \<mapsto> JBool False)) else disableAll ks m
      | _ \<Rightarrow> disableAll ks m)"

section \<open>project.go\<close>

text \<open>\<^verbatim>\<open>%d\<close> of fmt.Sprintf: the decimal digits of an integer.\<close>

fun digits :: "nat \<Rightarrow> string" where
  "digits n =
     (if n < 10 then [''0123456789'' ! n]
      else digits (n div 10) @ [''0123456789'' ! (n mod 10)])"

declare digits.simps [simp del]

definition Itoa :: "int \<Rightarrow> string" where
  "Itoa i = (if i < 0 then CHR ''-'' # digits (nat (- i)) else digits (nat i))"

text \<open>\<^verbatim>\<open>%s\<close> of fmt: a string as it is, any other value in fmt's bad-verb rendering.\<close>

definition Sprint_s :: "env \<Rightarrow> jvalue \<Rightarrow> string" where
  "Sprint_s e v = (case v of JString s \<Rightarrow> s | _ \<Rightarrow> fmt_bad_verb e v)"

text \<open>projects takes the page number and does not use it: the request is the same for every page.\<close>

definition projects :: "env \<Rightarrow> client \<Rightarrow> world \<Rightarrow> int \<Rightarrow> ProjectsResponse res \<times> client \<times> world" where
  "projects e c w page =
     (case newRequest e c MethodGet ''projects'' None of
        Inl err \<Rightarrow> (Inl err, c, w)
      | Inr req \<Rightarrow>
          (case doRequest e c w req of
             (Inl err, c1, w1) \<Rightarrow> (Inl err, c1, w1)
           | (Inr rsp, c1, w1) \<Rightarrow>
               (let (body, w2) = read_Body w1 rsp
                in case decode_ProjectsResponse e body of
                     Inl err \<Rightarrow> (Inl (Error (''while decoding projects response: '' @ err)), c1, w2)
                   | Inr r \<Rightarrow> (Inr r, c1, w2))))"

text \<open>
  The loop of ListProjects, from the page it is at and the projects gathered so far. It has
  no bound of its own, so it is a partial function: None is a loop that never ends. (Go's
  \<^verbatim>\<open>page\<close> is a 64-bit integer and cannot overflow here: at the largest integer the test
  \<^verbatim>\<open>TotalPages <= page\<close> holds.) On a failed fetch Go returns \<^verbatim>\<open>nil, err\<close>: the failure
  alone, without the projects gathered.
\<close>

partial_function (option) ListProjects_loop ::
  "env \<Rightarrow> client \<Rightarrow> world \<Rightarrow> Project list \<Rightarrow> int \<Rightarrow> (Project list res \<times> client \<times> world) option"
where
  "ListProjects_loop e c w ps page =
     (case projects e c w page of
        (Inl err, c1, w1) \<Rightarrow> Some (Inl err, c1, w1)
      | (Inr rsp, c1, w1) \<Rightarrow>
          (let ps' = ps @ Projects rsp
           in if TotalPages (pr_Pagination rsp) \<le> page then Some (Inr ps', c1, w1)
              else ListProjects_loop e c1 w1 ps' (page + 1)))"

declare ListProjects_loop.simps [code]

definition ListProjects :: "env \<Rightarrow> client \<Rightarrow> world \<Rightarrow> (Project list res \<times> client \<times> world) option" where
  "ListProjects e c w = ListProjects_loop e c w [] 1"

text \<open>\<^verbatim>\<open>prefs[0]\<close> on an empty slice is a run-time panic, not a returned error.\<close>

definition index_out_of_range :: failure where
  "index_out_of_range = Panic ''runtime error: index out of range [0] with length 0''"

definition notificationPreferences ::
  "env \<Rightarrow> client \<Rightarrow> world \<Rightarrow> int \<Rightarrow> string \<Rightarrow> string \<Rightarrow> UserPreference res \<times> client \<times> world" where
  "notificationPreferences e c w objectId object prefType =
     (case newRequest e c MethodGet (object @ ''/'' @ Itoa objectId @ ''/'' @ prefType) None of
        Inl err \<Rightarrow> (Inl err, c, w)
      | Inr req \<Rightarrow>
          (case doRequest e c w req of
             (Inl err, c1, w1) \<Rightarrow> (Inl err, c1, w1)
           | (Inr rsp, c1, w1) \<Rightarrow>
               (let (body, w2) = read_Body w1 rsp
                in case decode_EmailPreferencesResponse e body of
                     Inl err \<Rightarrow>
                       (Inl (Error (''while decoding project user email prefs response: '' @ err)),
                        c1, w2)
                   | Inr r \<Rightarrow>
                       (let prefs = UserEmailPreferences r;
                            w3 = (if length prefs > 1 then log_Print w2 (LogUnexpectedPrefs r) else w2)
                        in case prefs of
                             [] \<Rightarrow> (Inl index_out_of_range, c1, w3)
                           | p # _ \<Rightarrow> (Inr p, c1, w3)))))"

definition ProjectEmailPreferences where
  "ProjectEmailPreferences e c w projectId =
     notificationPreferences e c w projectId ''projects'' ''user_email_preferences''"

definition WorkspaceEmailPreferences where
  "WorkspaceEmailPreferences e c w workspaceId =
     notificationPreferences e c w workspaceId ''workspaces'' ''user_email_preferences''"

definition ProjectInAppPreferences where
  "ProjectInAppPreferences e c w projectId =
     notificationPreferences e c w projectId ''projects'' ''user_in_app_preferences''"

definition WorkspaceInAppPreferences where
  "WorkspaceInAppPreferences e c w workspaceId =
     notificationPreferences e c w workspaceId ''workspaces'' ''user_in_app_preferences''"

definition userSettings ::
  "env \<Rightarrow> client \<Rightarrow> world \<Rightarrow> int \<Rightarrow> string \<Rightarrow> bool \<Rightarrow> UserSetting res \<times> client \<times> world" where
  "userSettings e c w objectId object triage =
     (let method = (if triage then ''triage_user_settings'' else ''user_settings'')
      in case newRequest e c MethodGet (object @ ''/'' @ Itoa objectId @ ''/'' @ method) None of
           Inl err \<Rightarrow> (Inl err, c, w)
         | Inr req \<Rightarrow>
             (case doRequest e c w req of
                (Inl err, c1, w1) \<Rightarrow> (Inl err, c1, w1)
              | (Inr rsp, c1, w1) \<Rightarrow>
                  (let (body, w2) = read_Body w1 rsp
                   in case decode_UserSettingResponse e body of
                        Inl err \<Rightarrow>
                          (Inl (Error (''while decoding project triage user settings: '' @ err)),
                           c1, w2)
                      | Inr r \<Rightarrow>
                          (let settings = UserSettings r;
                               w3 = (if length settings > 1
                                     then log_Print w2 (LogUnexpectedSettings r) else w2)
                           in case settings of
                                [] \<Rightarrow> (Inl index_out_of_range, c1, w3)
                              | s # _ \<Rightarrow> (Inr s, c1, w3)))))"

definition ProjectTriageUserSettings where
  "ProjectTriageUserSettings e c w projectId = userSettings e c w projectId ''projects'' True"

definition ProjectUserSettings where
  "ProjectUserSettings e c w projectId = userSettings e c w projectId ''projects'' False"

definition WorkspaceUserSettings where
  "WorkspaceUserSettings e c w workspaceId = userSettings e c w workspaceId ''workspaces'' False"

text \<open>disableNotifications returns \<^verbatim>\<open>nil\<close> (here the unit value) or an error.\<close>

definition disableNotifications ::
  "env \<Rightarrow> client \<Rightarrow> world \<Rightarrow> int \<Rightarrow> string \<Rightarrow> int \<Rightarrow> string \<Rightarrow> string option
     \<Rightarrow> unit res \<times> client \<times> world" where
  "disableNotifications e c w objectId object prefId prefType body =
     (case newRequest e c MethodPut
             (object @ ''/'' @ Itoa objectId @ ''/'' @ prefType @ ''/'' @ Itoa prefId) body of
        Inl err \<Rightarrow> (Inl err, c, w)
      | Inr req \<Rightarrow>
          (case doRequest e c w req of
             (Inl err, c1, w1) \<Rightarrow> (Inl err, c1, w1)
           | (Inr rsp, c1, w1) \<Rightarrow>
               (let (text, w2) = read_Body w1 rsp
                in case decode_interface e text of
                     Inl err \<Rightarrow> (Inl (Error err), c1, w2)
                   | Inr i \<Rightarrow>
                       (case i of
                          JObject m \<Rightarrow>
                            (case m ''error'' of
                               Some msg \<Rightarrow>
                                 (Inl (Error (''error disabling notifications for '' @ URL req
                                                @ '': '' @ Sprint_s e msg)), c1, w2)
                             | None \<Rightarrow> (Inr (), c1, w2))
                        | _ \<Rightarrow> (Inr (), c1, w2)))))"

definition DisableProjectEmailNotifications where
  "DisableProjectEmailNotifications e c w projectId prefId body =
     disableNotifications e c w projectId ''projects'' prefId ''user_email_preferences'' body"

definition DisableProjectInAppNotifications where
  "DisableProjectInAppNotifications e c w projectId prefId body =
     disableNotifications e c w projectId ''projects'' prefId ''user_in_app_preferences'' body"

definition DisableWorkspaceEmailNotifications where
  "DisableWorkspaceEmailNotifications e c w workspaceId prefId body =
     disableNotifications e c w workspaceId ''workspaces'' prefId ''user_email_preferences'' body"

definition DisableWorkspaceInAppNotifications where
  "DisableWorkspaceInAppNotifications e c w workspaceId prefId body =
     disableNotifications e c w workspaceId ''workspaces'' prefId ''user_in_app_preferences'' body"

section \<open>What a run has done\<close>

text \<open>
  The page fetches of a run: the GET requests among the requests sent. The token exchange
  is a POST request and does not count.
\<close>

definition fetches :: "world \<Rightarrow> nat" where
  "fetches w = length (filter (\<lambda>q. Method q = MethodGet) (sent w))"

section \<open>Example inputs\<close>

text \<open>The preference map \<^verbatim>\<open>{"email": true, "slack": false, "id": 7, "email_address": "a@b.com"}\<close>.\<close>

definition pref_example :: UserPreference where
  "pref_example = [''email'' \<mapsto> JBool True, ''slack'' \<mapsto> JBool False,
                   ''id'' \<mapsto> JNumber 7, ''email_address'' \<mapsto> JString ''a@b.com'']"

text \<open>A transport that gives its answers in turn, and a JSON decoder given by its table.\<close>

definition http_script :: "(string + Response) list \<Rightarrow> nat \<Rightarrow> Request \<Rightarrow> string + Response" where
  "http_script answers n req = (if n < length answers then answers ! n else Inl ''EOF'')"

definition decode_table :: "(string \<times> 'a) list \<Rightarrow> string \<Rightarrow> string + 'a" where
  "decode_table table text =
     (case map_of table text of None \<Rightarrow> Inl ''invalid character'' | Some v \<Rightarrow> Inr v)"

definition body_token :: string where
  \<open>body_token = ''{"access_token": "tok-1"}''\<close>

definition body_oops :: string where
  \<open>body_oops = ''{"message": "oops"}''\<close>

definition body_error :: string where
  \<open>body_error = ''{"error": "bad id"}''\<close>

definition body_ok :: string where
  \<open>body_ok = ''{"status":"ok"}''\<close>

definition body_no_data :: string where
  \<open>body_no_data = ''{"pagination": {"total_pages": 0}, "data": []}''\<close>

definition body_page1 :: string where
  \<open>body_page1 = ''{"pagination": {"total_pages": 2}, "data": [{"id": 1}]}''\<close>

definition body_page2 :: string where
  \<open>body_page2 = ''{"pagination": {"total_pages": 2}, "data": [{"id": 2}]}''\<close>

definition project_example :: "int \<Rightarrow> Project" where
  "project_example i =
     \<lparr>ID = i, AccountID = 0, Description = '''', Name = '''', CreatedAt = zero_Time,
      UpdatedAt = zero_Time, Slug = '''', Private = False, PriorityFormat = '''',
      Priority = False, Points = False, Triage = False, Upvotes = False, Sources = [],
      Workspaces = []\<rparr>"

definition pagination_example :: "int \<Rightarrow> Pagination" where
  "pagination_example n = \<lparr>Page = 0, PerPage = 0, TotalPages = n, Total = 0\<rparr>"

definition page_example :: "int \<Rightarrow> ProjectsResponse" where
  "page_example i = \<lparr>pr_Pagination = pagination_example 2, Projects = [project_example i]\<rparr>"

text \<open>
  An environment: the clock starts at 1700000000 seconds and moves one nanosecond with each
  reading; every URL is well formed, every claim valid, every signature succeeds; the
  decoders know the bodies above. A body that is a JSON object without
  \<^verbatim>\<open>access_token\<close> decodes to the empty token.
\<close>

definition env_example :: env where
  "env_example =
     \<lparr>now_at = (\<lambda>n. 1700000000 * 1000000000 + int n),
      url_error = (\<lambda>u. None),
      claims_Valid = (\<lambda>cl. None),
      SignedString = (\<lambda>cl k. Inr (''signed for '' @ Issuer cl)),
      decode_ProjectsResponse = decode_table
        [(body_no_data, \<lparr>pr_Pagination = pagination_example 0, Projects = []\<rparr>),
         (body_page1, \<lparr>pr_Pagination = pagination_example 2, Projects = [project_example 1]\<rparr>),
         (body_page2, \<lparr>pr_Pagination = pagination_example 2, Projects = [project_example 2]\<rparr>)],
      decode_EmailPreferencesResponse = decode_table
        [(body_no_data, \<lparr>epr_Pagination = pagination_example 0, UserEmailPreferences = []\<rparr>)],
      decode_UserSettingResponse = decode_table
        [(body_no_data, \<lparr>usr_Pagination = pagination_example 0, UserSettings = []\<rparr>)],
      decode_accessTokenRsp = decode_table
        [(body_token, ''tok-1''), (body_oops, '''')],
      decode_interface = decode_table
        [(body_error, JObject [''error'' \<mapsto> JString ''bad id'']),
         (body_ok, JObject [''status'' \<mapsto> JString ''ok''])],
      fmt_bad_verb = (\<lambda>v. ''%!s(?)'')\<rparr>"

text \<open>The same environment with a signature that fails, and with claims that are invalid.\<close>

definition env_unsigned :: env where
  "env_unsigned = env_example\<lparr>SignedString := (\<lambda>cl k. Inl ''crypto/rsa: message too long'')\<rparr>"

definition env_invalid :: env where
  "env_invalid = env_example\<lparr>claims_Valid := (\<lambda>cl. Some ''token is expired'')\<rparr>"

definition claims_example :: StandardClaims where
  "claims_example = \<lparr>IssuedAt = 1700000000, ExpiresAt = 1700000060, Issuer = ''client-1''\<rparr>"

definition world_example :: world where
  "world_example = \<lparr>ticks = 0, sent = [], signed = [], logged = []\<rparr>"

text \<open>
  A new client; one that holds a token that env_example's clock has not yet reached; and
  the new client after its first token exchange.
\<close>

definition client_example :: "(string + Response) list \<Rightarrow> client" where
  "client_example answers = NewClient (http_script answers) ''client-1'' ''PEM'' []"

definition client_cached :: "(string + Response) list \<Rightarrow> client" where
  "client_cached answers =
     (client_example answers)\<lparr>accessToken := ''tok-0'',
                               accessExpiry := 1700000000 * 1000000000 + 1000\<rparr>"

definition client_refreshed :: "(string + Response) list \<Rightarrow> client" where
  "client_refreshed answers =
     (client_example answers)\<lparr>accessExpiry := 1700000000 * 1000000000 + Minute,
                               accessToken := ''tok-1''\<rparr>"

definition response_example :: "int \<Rightarrow> string \<Rightarrow> Response" where
  "response_example status text = \<lparr>StatusCode = status, Body = text, Tee = False\<rparr>"

definition client_no_data :: client where
  "client_no_data = client_cached [Inr (response_example 200 body_no_data)]"

definition client_answer :: "string \<Rightarrow> client" where
  "client_answer text = client_cached [Inr (response_example 200 text)]"

text \<open>A client, with a token, whose server answers every request with the first of two pages.\<close>

definition client_first_page :: client where
  "client_first_page =
     (client_cached [])\<lparr>httpClient := (\<lambda>n req. Inr (response_example 200 body_page1))\<rparr>"

definition request_example :: Request where
  "request_example =
     \<lparr>Method = ''GET'', URL = ''https://zube.io/api/projects'',
      Header = [(''Accept'', ''application/json''), (''Content-Type'', ''application/json''),
                (''X-Client-ID'', ''client-1'')],
      ReqBody = None\<rparr>"

definition request_get :: "string \<Rightarrow> Request" where
  "request_get api = request_example\<lparr>URL := ''https://zube.io/api/'' @ api\<rparr>"

definition request_put :: Request where
  "request_put =
     (request_get ''projects/7/user_email_preferences/42'')\<lparr>Method := ''PUT'',
        ReqBody := Some ''{}''\<rparr>"

definition request_authorized :: Request where
  "request_authorized =
     request_example\<lparr>Header := Header request_example @ [(''Authorization'', ''Bearer tok-0'')]\<rparr>"

definition request_token :: Request where
  "request_token =
     \<lparr>Method = ''POST'', URL = ''https://zube.io/api/users/tokens'',
      Header = [(''Accept'', ''application/json''), (''Content-Type'', ''application/json''),
                (''X-Client-ID'', ''client-1''),
                (''Authorization'', ''Bearer signed for client-1'')],
      ReqBody = None\<rparr>"

definition request_projects :: Request where
  "request_projects =
     request_example\<lparr>Header := Header request_example @ [(''Authorization'', ''Bearer tok-1'')]\<rparr>"

text \<open>The world of a run that began with a token exchange and has sent \<open>requests\<close>.\<close>

definition world_fetched :: "Request list \<Rightarrow> world" where
  "world_fetched requests =
     \<lparr>ticks = length requests, sent = requests, signed = [claims_example], logged = []\<rparr>"

definition answers_pages :: "(string + Response) list" where
  "answers_pages = [Inr (response_example 200 body_token), Inr (response_example 200 body_page1),
                    Inr (response_example 200 body_page2)]"

definition answers_reset :: "(string + Response) list" where
  "answers_reset = [Inr (response_example 200 body_token), Inr (response_example 200 body_page1),
                    Inl ''connection reset by peer'']"

lemmas fixture_defs = env_example_def world_example_def client_example_def client_cached_def
  request_example_def response_example_def NewClient_def http_script_def decode_table_def
  Header_Add_def Header_Get_def

lemmas run_defs = projects_def doRequest.simps doRequest_authorize.simps access.simps
  doRequest_send_def doRequest_log_def refreshToken_def newRequest_def time_Now_def Let_def
  read_Body_def Unix_def Minute_def MethodGet_def MethodPost_def StatusBadRequest_def
  body_token_def body_page1_def body_page2_def body_no_data_def body_oops_def
  request_token_def request_projects_def client_refreshed_def world_fetched_def page_example_def
  claims_example_def fixture_defs






section \<open>The credential signer: refreshToken\<close>

lemma Unix_add_Minute: "Unix (t + Minute) = Unix t + 60"
  by (simp add: Unix_def Minute_def)

lemma refreshToken_ignores_parameters:
  "refreshToken e c w iat eat = refreshToken e c w iat' eat'"
  by (simp add: refreshToken_def)

lemma refreshToken_sent: "refreshToken e c w i x = (r, w1) \<Longrightarrow> sent w1 = sent w"
  by (auto simp: refreshToken_def time_Now_def Let_def split: option.splits sum.splits)

text \<open>
  C8, as the code has it. Let \<open>t\<close> be the clock's reading when refreshToken is called (the
  two time parameters are not used), and \<open>cl\<close> the claims with issuer the client
  identifier, issued-at \<open>t\<close> and expiry \<open>t\<close> plus one minute, both in Unix seconds. If \<open>cl\<close> is
  valid, refreshToken returns what signing \<open>cl\<close> with the client's key returns: the token, or
  the signature's error as an error value. If \<open>cl\<close> is invalid the process ends in
  \<^verbatim>\<open>log.Fatalf\<close>; no error value goes back to the caller.
\<close>

theorem refreshToken_claims:
  assumes "cl = \<lparr>IssuedAt = Unix (now_at e (ticks w)), ExpiresAt = Unix (now_at e (ticks w)) + 60,
                  Issuer = clientId c\<rparr>"
  shows "(claims_Valid e cl = None \<and> SignedString e cl (key c) = Inr token \<longrightarrow>
            fst (refreshToken e c w iat eat) = Inr token \<and>
            signed (snd (refreshToken e c w iat eat)) = signed w @ [cl]) \<and>
         (claims_Valid e cl = None \<and> SignedString e cl (key c) = Inl err \<longrightarrow>
            fst (refreshToken e c w iat eat) = Inl (Error err)) \<and>
         (claims_Valid e cl = Some err \<longrightarrow>
            fst (refreshToken e c w iat eat) = Inl (Fatal (''invalid claims: '' @ err)))"
  using assms
  by (simp add: refreshToken_def time_Now_def Unix_add_Minute)

lemma claims_example_eq:
  "claims_example = \<lparr>IssuedAt = Unix (now_at env_example (ticks world_example)),
      ExpiresAt = Unix (now_at env_example (ticks world_example)) + 60,
      Issuer = clientId (client_example [])\<rparr>"
  by (simp add: claims_example_def env_example_def world_example_def client_example_def
        NewClient_def Unix_def)

theorem refreshToken_claims_witness:
  "fst (refreshToken env_example (client_example []) world_example 0 0) = Inr ''signed for client-1'' \<and>
   signed (snd (refreshToken env_example (client_example []) world_example 0 0)) = [claims_example] \<and>
   fst (refreshToken env_unsigned (client_example []) world_example 0 0) =
     Inl (Error ''crypto/rsa: message too long'') \<and>
   fst (refreshToken env_invalid (client_example []) world_example 0 0) =
     Inl (Fatal ''invalid claims: token is expired'')"
proof -
  have u: "claims_example = \<lparr>IssuedAt = Unix (now_at env_unsigned (ticks world_example)),
      ExpiresAt = Unix (now_at env_unsigned (ticks world_example)) + 60,
      Issuer = clientId (client_example [])\<rparr>"
    using claims_example_eq by (simp add: env_unsigned_def)
  have i: "claims_example = \<lparr>IssuedAt = Unix (now_at env_invalid (ticks world_example)),
      ExpiresAt = Unix (now_at env_invalid (ticks world_example)) + 60,
      Issuer = clientId (client_example [])\<rparr>"
    using claims_example_eq by (simp add: env_invalid_def)
  have a: "claims_Valid env_example claims_example = None \<and>
        SignedString env_example claims_example (key (client_example [])) = Inr ''signed for client-1''"
    by (simp add: env_example_def claims_example_def)
  have b: "claims_Valid env_unsigned claims_example = None \<and>
        SignedString env_unsigned claims_example (key (client_example [])) =
          Inl ''crypto/rsa: message too long''"
    by (simp add: env_unsigned_def env_example_def)
  have c: "claims_Valid env_invalid claims_example = Some ''token is expired''"
    by (simp add: env_invalid_def)
  have s: "signed world_example = []" by (simp add: world_example_def)
  show ?thesis
    using refreshToken_claims [OF claims_example_eq,
            where token = "''signed for client-1''" and iat = 0 and eat = 0] a
          refreshToken_claims [OF u,
            where err = "''crypto/rsa: message too long''" and iat = 0 and eat = 0] b
          refreshToken_claims [OF i, where err = "''token is expired''" and iat = 0 and eat = 0] c s
    by simp
qed

text \<open>With claims that fail their validation the signer does not return an error: the
  process ends.\<close>

theorem refreshToken_invalid_claims_counterexample:
  "fst (refreshToken env_invalid (client_example []) world_example 0 0) =
     Inl (Fatal ''invalid claims: token is expired'')"
  by (simp add: refreshToken_def time_Now_def env_invalid_def)

section \<open>Dispatch and the token cache: doRequest and access\<close>

lemma doRequest_send_state:
  "doRequest_send c w req = (r, c', w') \<Longrightarrow> c' = c \<and> w' = w\<lparr>sent := sent w @ [req]\<rparr>"
  by (auto simp: doRequest_send_def Let_def split: sum.splits if_splits)

lemma doRequest_authorized:
  "Header_Get (Header req) ''Authorization'' \<noteq> '''' \<Longrightarrow>
   doRequest e c w req = doRequest_send c (doRequest_log c w req) req"
  by (simp add: doRequest.simps)

lemma doRequest_log_sent: "sent (doRequest_log c w req) = sent w"
  by (simp add: doRequest_log_def log_Print_def)

lemma read_Body_sent: "read_Body w rsp = (b, w1) \<Longrightarrow> sent w1 = sent w"
  by (auto simp: read_Body_def log_Print_def)

lemma newRequest_Header:
  "newRequest e c m api b = Inr req \<Longrightarrow>
   Header req = [(''Accept'', ''application/json''), (''Content-Type'', ''application/json''),
                 (''X-Client-ID'', clientId c)]"
  by (auto simp: newRequest_def Header_Add_def split: option.splits)

lemma newRequest_unauthorized:
  "newRequest e c m api b = Inr req \<Longrightarrow> Header_Get (Header req) ''Authorization'' = ''''"
  by (simp add: newRequest_Header Header_Get_def)

lemma newRequest_Method: "newRequest e c m api b = Inr req \<Longrightarrow> Method req = m"
  by (auto simp: newRequest_def split: option.splits)

text \<open>The request that access sends has an Authorization header, so doRequest sends it as
  it is.\<close>

lemma access_doRequest:
  assumes "newRequest e c m api b = Inr req" and "v \<noteq> []"
  shows "doRequest e c w (req\<lparr>Header := Header_Add (Header req) ''Authorization'' v\<rparr>) =
         doRequest_send c (doRequest_log c w req)
           (req\<lparr>Header := Header_Add (Header req) ''Authorization'' v\<rparr>)"
proof -
  have "Header_Get (Header_Add (Header req) ''Authorization'' v) ''Authorization'' \<noteq> []"
    using assms(2) by (simp add: newRequest_Header [OF assms(1)] Header_Get_def Header_Add_def)
  then show ?thesis
    by (simp add: doRequest_authorized doRequest_log_def)
qed


text \<open>access changes no field of the client, and sends no GET request.\<close>

lemma access_client:
  assumes "access e c w i x = (r, c', w')"
  shows "c' = c"
proof (cases "refreshToken e c w i x")
  case (Pair rt w1)
  show ?thesis
  proof (cases rt)
    case (Inl err)
    with Pair assms show ?thesis by (simp add: access.simps)
  next
    case (Inr tok)
    show ?thesis
    proof (cases "newRequest e c MethodPost ''users/tokens'' None")
      case (Inl err)
      with Pair Inr assms show ?thesis by (simp add: access.simps)
    next
      case req: (Inr req)
      from Pair Inr req assms show ?thesis
        by (auto simp: access.simps access_doRequest [OF req] split: sum.splits prod.splits
              dest: doRequest_send_state)
    qed
  qed
qed

lemma access_fetches:
  assumes "access e c w i x = (r, c', w')"
  shows "fetches w' = fetches w"
proof (cases "refreshToken e c w i x")
  case (Pair rt w1)
  then have s1: "sent w1 = sent w" by (rule refreshToken_sent)
  show ?thesis
  proof (cases rt)
    case (Inl err)
    with Pair assms s1 show ?thesis by (auto simp: access.simps fetches_def)
  next
    case (Inr tok)
    show ?thesis
    proof (cases "newRequest e c MethodPost ''users/tokens'' None")
      case (Inl err)
      with Pair Inr assms s1 show ?thesis by (auto simp: access.simps fetches_def)
    next
      case req: (Inr req)
      have m: "Method req \<noteq> MethodGet"
        using newRequest_Method [OF req] by (simp add: MethodPost_def MethodGet_def)
      from Pair Inr req assms s1 m show ?thesis
        by (auto simp: access.simps access_doRequest [OF req] fetches_def doRequest_log_sent
              split: sum.splits prod.splits
              dest!: doRequest_send_state read_Body_sent)
    qed
  qed
qed

lemma authorize_fetches:
  assumes "doRequest_authorize e c w req = (Inr req1, c1, w1)"
  shows "Method req1 = Method req \<and> fetches w1 = fetches w"
  using assms
  by (auto simp: doRequest_authorize.simps Let_def time_Now_def fetches_def [of "w\<lparr>ticks := _\<rparr>"]
        fetches_def [of w]
        split: if_splits prod.splits sum.splits dest!: access_fetches)

lemma doRequest_fetches:
  assumes "doRequest e c w req = (r, c1, w1)" and "Header_Get (Header req) ''Authorization'' = ''''"
    and "Method req = MethodGet" and "r = Inr rsp"
  shows "fetches w1 = Suc (fetches w)"
proof (cases "doRequest_authorize e c (doRequest_log c w req) req")
  case (fields ra ca wa)
  show ?thesis
  proof (cases ra)
    case (Inl f)
    with fields assms show ?thesis by (simp add: doRequest.simps)
  next
    case (Inr req1)
    from authorize_fetches [OF fields [unfolded Inr]]
    have m: "Method req1 = MethodGet" and f: "fetches wa = fetches w"
      using assms(3) by (simp_all add: fetches_def doRequest_log_sent)
    from fields Inr assms(1,2) have "doRequest_send ca wa req1 = (r, c1, w1)"
      by (simp add: doRequest.simps)
    then have "w1 = wa\<lparr>sent := sent wa @ [req1]\<rparr>" by (auto dest: doRequest_send_state)
    with m f show ?thesis by (simp add: fetches_def)
  qed
qed

lemma authorize_failure_slot:
  assumes "doRequest_authorize e c w req = (Inl f, c', w')"
  shows "accessToken c' = accessToken c \<and> accessExpiry c' = accessExpiry c"
  using assms
  by (auto simp: doRequest_authorize.simps Let_def split: if_splits prod.splits sum.splits
       dest!: access_client)

text \<open>
  Every failure of the block leaves the mutex held (line 103 returns before line 108
  unlocks), and on a held mutex the block does not get past \<^verbatim>\<open>Lock\<close>.
\<close>

lemma authorize_failure_holds_mutex:
  assumes "doRequest_authorize e c w req = (Inl f, c', w')"
  shows "accessMutex c' \<and> doRequest_authorize e' c' w'' req' = (Inl Blocked, c', w'')"
  using assms
  by (auto simp: doRequest_authorize.simps Let_def split: if_splits prod.splits sum.splits
       dest!: access_client)

text \<open>
  C4. When the mutex is free, a token is cached and the clock's reading is strictly before
  the stored expiry, the block returns the request with the cached token as its bearer
  token; the client, and with it the token and its expiry, is as before; the world differs
  by the one reading of the clock only: nothing was signed, nothing was sent.
\<close>

theorem authorize_cached:
  assumes "\<not> accessMutex c" and "accessToken c \<noteq> ''''" and "now_at e (ticks w) < accessExpiry c"
  shows "doRequest_authorize e c w req =
           (Inr (req\<lparr>Header := Header_Add (Header req) ''Authorization''
                                   (''Bearer '' @ accessToken c)\<rparr>),
            c, w\<lparr>ticks := Suc (ticks w)\<rparr>) \<and>
         signed (snd (snd (doRequest_authorize e c w req))) = signed w \<and>
         sent (snd (snd (doRequest_authorize e c w req))) = sent w"
  using assms by (simp add: doRequest_authorize.simps time_Now_def Let_def)

theorem authorize_cached_witness:
  "\<not> accessMutex (client_cached []) \<and> accessToken (client_cached []) \<noteq> '''' \<and>
   now_at env_example (ticks world_example) < accessExpiry (client_cached []) \<and>
   doRequest_authorize env_example (client_cached []) world_example request_example =
     (Inr request_authorized, client_cached [], world_example\<lparr>ticks := 1\<rparr>)"
proof -
  have a: "\<not> accessMutex (client_cached [])"
    by (simp add: client_cached_def client_example_def NewClient_def)
  have b: "accessToken (client_cached []) \<noteq> ''''"
    by (simp add: client_cached_def)
  have c: "now_at env_example (ticks world_example) < accessExpiry (client_cached [])"
    by (simp add: client_cached_def env_example_def world_example_def)
  have t: "accessToken (client_cached []) = ''tok-0''" "ticks world_example = 0"
    by (simp_all add: client_cached_def world_example_def)
  show ?thesis
    using a b c authorize_cached [OF a b c, of request_example]
    by (simp add: t Header_Add_def request_authorized_def)
qed








text \<open>
  C7, as the code has it. When the answer to the request that doRequest sends (the request
  itself if it has an Authorization header, else the request the block returns) has status
  400, doRequest returns an error whose message is \<^verbatim>\<open>bad request: \<close> followed by the body.
\<close>

theorem doRequest_bad_request:
  assumes "StatusCode rsp = StatusBadRequest"
  shows "(Header_Get (Header req) ''Authorization'' \<noteq> '''' \<and>
          httpClient c (length (sent w)) req = Inr rsp \<longrightarrow>
            fst (doRequest e c w req) = Inl (Error (''bad request: '' @ Body rsp))) \<and>
         (Header_Get (Header req) ''Authorization'' = '''' \<and>
          doRequest_authorize e c (doRequest_log c w req) req = (Inr req1, c1, w1) \<and>
          httpClient c1 (length (sent w1)) req1 = Inr rsp \<longrightarrow>
            fst (doRequest e c w req) = Inl (Error (''bad request: '' @ Body rsp)))"
  using assms
  by (simp add: doRequest.simps doRequest_send_def doRequest_log_def log_Print_def)

theorem doRequest_bad_request_witness:
  "StatusCode (response_example 400 body_error) = StatusBadRequest \<and>
   fst (doRequest env_example (client_example [Inr (response_example 400 body_error)])
          world_example request_authorized) = Inl (Error (''bad request: '' @ body_error)) \<and>
   fst (doRequest env_example (client_cached [Inr (response_example 400 body_error)])
          world_example request_example) = Inl (Error (''bad request: '' @ body_error))"
proof -
  have s: "StatusCode (response_example 400 body_error) = StatusBadRequest"
    by (simp add: response_example_def StatusBadRequest_def)
  have a: "Header_Get (Header request_authorized) ''Authorization'' \<noteq> '''' \<and>
      httpClient (client_example [Inr (response_example 400 body_error)])
        (length (sent world_example)) request_authorized = Inr (response_example 400 body_error)"
    by (simp add: request_authorized_def fixture_defs)
  have b: "Header_Get (Header request_example) ''Authorization'' = '''' \<and>
      doRequest_authorize env_example (client_cached [Inr (response_example 400 body_error)])
        (doRequest_log (client_cached [Inr (response_example 400 body_error)]) world_example
           request_example) request_example =
        (Inr request_authorized, client_cached [Inr (response_example 400 body_error)],
         world_example\<lparr>ticks := 1\<rparr>) \<and>
      httpClient (client_cached [Inr (response_example 400 body_error)])
        (length (sent (world_example\<lparr>ticks := 1\<rparr>))) request_authorized =
        Inr (response_example 400 body_error)"
    by (simp add: doRequest_authorize.simps doRequest_log_def time_Now_def Let_def
          request_authorized_def fixture_defs)
  have B: "Body (response_example 400 body_error) = body_error"
    by (simp add: response_example_def)
  show ?thesis
    using s a b
      doRequest_bad_request [OF s, of request_authorized
        "client_example [Inr (response_example 400 body_error)]" world_example env_example]
      doRequest_bad_request [OF s, of request_example
        "client_cached [Inr (response_example 400 body_error)]" world_example env_example]
    unfolding B by blast
qed

text \<open>A response with status 404 is returned as a success, body and all.\<close>

theorem doRequest_not_found_counterexample:
  "fst (doRequest env_example (client_example [Inr (response_example 404 body_error)])
          world_example request_authorized) = Inr (response_example 404 body_error)"
  by (simp add: doRequest.simps doRequest_send_def doRequest_log_def StatusBadRequest_def
        request_authorized_def fixture_defs)

section \<open>Listing the projects\<close>

lemma projects_ignores_page: "projects e c w page = projects e c w page'"
  by (simp add: projects_def)

lemma projects_fetches:
  assumes "projects e c w page = (Inr r, c1, w1)"
  shows "fetches w1 = Suc (fetches w)"
proof (cases "newRequest e c MethodGet ''projects'' None")
  case (Inl err)
  with assms show ?thesis by (simp add: projects_def)
next
  case (Inr req)
  obtain rd cd wd where d: "doRequest e c w req = (rd, cd, wd)"
    by (cases "doRequest e c w req") auto
  show ?thesis
  proof (cases rd)
    case (Inl f)
    with Inr d assms show ?thesis by (simp add: projects_def)
  next
    case rsp: (Inr rsp)
    have "fetches wd = Suc (fetches w)"
      using doRequest_fetches [OF d newRequest_unauthorized [OF Inr] newRequest_Method [OF Inr] rsp] .
    moreover have "sent w1 = sent wd"
      using Inr d rsp assms
      by (auto simp: projects_def split: prod.splits sum.splits dest: read_Body_sent)
    ultimately show ?thesis by (simp add: fetches_def)
  qed
qed

text \<open>
  The requests for the first and the second page are the same request. A server that
  answers by the request alone, here with page 1 of 2, is asked twice and answers twice with
  page 1: the project of page 1 is listed twice, that of page 2 never.
\<close>

lemma ListProjects_first_page_twice:
  "ListProjects env_example client_first_page world_example =
     Some (Inr [project_example 1, project_example 1], client_first_page,
           \<lparr>ticks = 2, sent = [request_authorized, request_authorized], signed = [],
            logged = []\<rparr>)"
  by (simp add: ListProjects_def ListProjects_loop.simps [of _ _ _ _ 1]
        ListProjects_loop.simps [of _ _ _ _ 2] run_defs pagination_example_def
        request_authorized_def client_first_page_def)

text \<open>\<open>n\<close> successful fetches, none of them of the last page, take the loop \<open>n\<close> pages on.\<close>

lemma ListProjects_loop_steps:
  assumes "\<forall>k<n. projects e (cs k) (ws k) (page + int k) = (Inr (rs k), cs (Suc k), ws (Suc k)) \<and>
                  page + int k < TotalPages (pr_Pagination (rs k))"
  shows "ListProjects_loop e (cs 0) (ws 0) ps page =
         ListProjects_loop e (cs n) (ws n) (ps @ concat (map (\<lambda>k. Projects (rs k)) [0..<n]))
           (page + int n)"
  using assms
proof (induction n)
  case 0
  show ?case by simp
next
  case (Suc n)
  then have "ListProjects_loop e (cs 0) (ws 0) ps page =
         ListProjects_loop e (cs n) (ws n) (ps @ concat (map (\<lambda>k. Projects (rs k)) [0..<n]))
           (page + int n)"
    by simp
  also have "\<dots> = ListProjects_loop e (cs (Suc n)) (ws (Suc n))
          ((ps @ concat (map (\<lambda>k. Projects (rs k)) [0..<n])) @ Projects (rs n)) (page + int n + 1)"
  proof -
    from Suc.prems have "projects e (cs n) (ws n) (page + int n) = (Inr (rs n), cs (Suc n), ws (Suc n))"
      and "page + int n < TotalPages (pr_Pagination (rs n))"
      by simp_all
    then show ?thesis
      by (subst ListProjects_loop.simps) (simp add: Let_def)
  qed
  finally show ?case by (simp add: ac_simps)
qed

text \<open>
  C1, as the code has it. Take a run of page fetches: fetch \<open>k\<close> (from 0) is the call of
  projects for page \<open>k + 1\<close> from the client \<open>cs k\<close> and world \<open>ws k\<close> that the fetch before
  left, and every response \<open>rs k\<close> reports the same total of \<open>N\<close> pages. Let \<open>n\<close> be \<open>N\<close>, or 1
  when \<open>N\<close> is below 1. If \<open>n\<close> fetches succeed, ListProjects returns the projects of the \<open>n\<close>
  responses, joined in the order of the fetches, in the state the last fetch left, and the
  run has sent exactly \<open>n\<close> GET requests. If fetch \<open>j\<close>, after \<open>j < n\<close> successes, fails,
  ListProjects returns that failure, without any project, in the state that fetch left.
\<close>

theorem ListProjects_total_pages:
  assumes "n = nat (max 1 N)" and "j \<le> n"
    and "\<forall>k<j. projects e (cs k) (ws k) (int k + 1) = (Inr (rs k), cs (Suc k), ws (Suc k)) \<and>
               TotalPages (pr_Pagination (rs k)) = N"
  shows "(j = n \<longrightarrow>
            ListProjects e (cs 0) (ws 0) =
              Some (Inr (concat (map (\<lambda>k. Projects (rs k)) [0..<n])), cs n, ws n) \<and>
            fetches (ws n) = fetches (ws 0) + n) \<and>
         (j < n \<and> projects e (cs j) (ws j) (int j + 1) = (Inl f, c', w') \<longrightarrow>
            ListProjects e (cs 0) (ws 0) = Some (Inl f, c', w'))"
proof -
  have n1: "1 \<le> n" using assms(1) by arith
  have nN: "N \<le> int n" using assms(1) by arith
  have small: "int k + 1 < N" if "Suc k < n" for k
    using that assms(1) by (cases "1 \<le> N") auto
  have fetch: "fetches (ws k) = fetches (ws 0) + k" if "k \<le> j" for k
    using that
  proof (induction k)
    case 0
    show ?case by simp
  next
    case (Suc k)
    then have "projects e (cs k) (ws k) (int k + 1) = (Inr (rs k), cs (Suc k), ws (Suc k))"
      using assms(3) by simp
    from projects_fetches [OF this] Suc show ?case by simp
  qed
  have ok: "ListProjects e (cs 0) (ws 0) =
              Some (Inr (concat (map (\<lambda>k. Projects (rs k)) [0..<n])), cs n, ws n)" if "j = n"
  proof -
    obtain m where m: "n = Suc m" using n1 by (cases n) auto
    have steps: "\<forall>k<m. projects e (cs k) (ws k) (1 + int k) = (Inr (rs k), cs (Suc k), ws (Suc k)) \<and>
                  1 + int k < TotalPages (pr_Pagination (rs k))"
      using assms(3) that m small by (auto simp: add.commute)
    have last: "projects e (cs m) (ws m) (1 + int m) = (Inr (rs m), cs (Suc m), ws (Suc m))"
       "TotalPages (pr_Pagination (rs m)) \<le> 1 + int m"
      using assms(3) that m nN by (auto simp: add.commute)
    have "ListProjects e (cs 0) (ws 0) =
          ListProjects_loop e (cs m) (ws m) ([] @ concat (map (\<lambda>k. Projects (rs k)) [0..<m])) (1 + int m)"
      unfolding ListProjects_def by (rule ListProjects_loop_steps [OF steps])
    also have "\<dots> = Some (Inr (concat (map (\<lambda>k. Projects (rs k)) [0..<Suc m])), cs (Suc m), ws (Suc m))"
      using last by (subst ListProjects_loop.simps) (simp add: Let_def)
    finally show ?thesis by (simp add: m)
  qed
  have bad: "ListProjects e (cs 0) (ws 0) = Some (Inl f, c', w')"
    if "j < n" and p: "projects e (cs j) (ws j) (int j + 1) = (Inl f, c', w')"
  proof -
    have steps: "\<forall>k<j. projects e (cs k) (ws k) (1 + int k) = (Inr (rs k), cs (Suc k), ws (Suc k)) \<and>
                  1 + int k < TotalPages (pr_Pagination (rs k))"
      using assms(3) that(1) small by (auto simp: add.commute)
    have "ListProjects e (cs 0) (ws 0) =
          ListProjects_loop e (cs j) (ws j) ([] @ concat (map (\<lambda>k. Projects (rs k)) [0..<j])) (1 + int j)"
      unfolding ListProjects_def by (rule ListProjects_loop_steps [OF steps])
    also have "\<dots> = Some (Inl f, c', w')"
      using p by (subst ListProjects_loop.simps) (simp add: add.commute)
    finally show ?thesis .
  qed
  show ?thesis
    using ok bad fetch [of n] by simp
qed

lemma first_page:
  "projects env_example (client_example answers_pages) world_example 1 =
     (Inr (page_example 1), client_refreshed answers_pages,
      world_fetched [request_token, request_projects])"
  by (simp add: run_defs answers_pages_def)

lemma second_page:
  "projects env_example (client_refreshed answers_pages)
     (world_fetched [request_token, request_projects]) 2 =
     (Inr (page_example 2), client_refreshed answers_pages,
      world_fetched [request_token, request_projects, request_projects])"
  by (simp add: run_defs answers_pages_def)

lemma first_page_reset:
  "projects env_example (client_example answers_reset) world_example 1 =
     (Inr (page_example 1), client_refreshed answers_reset,
      world_fetched [request_token, request_projects])"
  by (simp add: run_defs answers_reset_def)

lemma second_page_reset:
  "projects env_example (client_refreshed answers_reset)
     (world_fetched [request_token, request_projects]) 2 =
     (Inl (Error ''connection reset by peer''), client_refreshed answers_reset,
      world_fetched [request_token, request_projects, request_projects])"
  by (simp add: run_defs answers_reset_def)

text \<open>
  Two pages, the first fetch preceded by the token exchange: both projects come back, after
  two GET requests. With the second fetch cut off, the failure comes back alone.
\<close>

theorem ListProjects_total_pages_witness:
  "ListProjects env_example (client_example answers_pages) world_example =
     Some (Inr [project_example 1, project_example 2], client_refreshed answers_pages,
           world_fetched [request_token, request_projects, request_projects]) \<and>
   fetches (world_fetched [request_token, request_projects, request_projects]) =
     fetches world_example + 2 \<and>
   ListProjects env_example (client_example answers_reset) world_example =
     Some (Inl (Error ''connection reset by peer''), client_refreshed answers_reset,
           world_fetched [request_token, request_projects, request_projects])"
proof -
  let ?cs = "\<lambda>a k. if k = (0::nat) then client_example a else client_refreshed a"
  let ?ws = "\<lambda>k. if k = (0::nat) then world_example
                 else world_fetched (request_token # replicate k request_projects)"
  let ?rs = "\<lambda>k::nat. page_example (int k + 1)"
  have n: "(2::nat) = nat (max 1 2)" by simp
  have full: "\<forall>k<2. projects env_example (?cs answers_pages k) (?ws k) (int k + 1) =
                 (Inr (?rs k), ?cs answers_pages (Suc k), ?ws (Suc k)) \<and>
               TotalPages (pr_Pagination (?rs k)) = 2"
    using first_page second_page
    by (auto simp: less_Suc_eq numeral_2_eq_2 page_example_def pagination_example_def)
  have part: "\<forall>k<1. projects env_example (?cs answers_reset k) (?ws k) (int k + 1) =
                 (Inr (?rs k), ?cs answers_reset (Suc k), ?ws (Suc k)) \<and>
               TotalPages (pr_Pagination (?rs k)) = 2"
    using first_page_reset
    by (auto simp: page_example_def pagination_example_def)
  have bad: "(1::nat) < 2 \<and> projects env_example (?cs answers_reset 1) (?ws 1) (int 1 + 1) =
     (Inl (Error ''connection reset by peer''), client_refreshed answers_reset,
      world_fetched [request_token, request_projects, request_projects])"
    using second_page_reset by simp
  show ?thesis
    using ListProjects_total_pages [OF n order_refl full]
          ListProjects_total_pages [OF n _ part, of "Error ''connection reset by peer''"
            "client_refreshed answers_reset"
            "world_fetched [request_token, request_projects, request_projects]"] bad
    by (simp add: numeral_2_eq_2 page_example_def)
qed

text \<open>A response that reports a total of 0 pages: the one fetch that brought it was made.\<close>

theorem ListProjects_no_pages_counterexample:
  "decode_ProjectsResponse env_example body_no_data =
     Inr \<lparr>pr_Pagination = pagination_example 0, Projects = []\<rparr> \<and>
   TotalPages (pagination_example 0) = 0 \<and>
   ListProjects env_example client_no_data world_example =
     Some (Inr [], client_no_data,
           \<lparr>ticks = 1, sent = [request_authorized], signed = [], logged = []\<rparr>) \<and>
   fetches \<lparr>ticks = 1, sent = [request_authorized], signed = [], logged = []\<rparr> = 1"
  by (simp add: ListProjects_def ListProjects_loop.simps [of _ _ _ _ 1] run_defs
        pagination_example_def request_authorized_def fetches_def client_no_data_def)

section \<open>Preferences and settings: the first entry of the list\<close>

lemma Itoa_7: "Itoa 7 = ''7''"
  by (simp add: Itoa_def digits.simps)

lemma Itoa_42: "Itoa 42 = ''42''"
  by (simp add: Itoa_def digits.simps)

text \<open>
  C2, as the code has it. When the response decodes to a list without entries,
  notificationPreferences, and likewise userSettings, ends in the run-time panic of the
  index expression \<^verbatim>\<open>[0]\<close>: neither a value nor an error goes back to the caller.
\<close>

theorem empty_list_panics:
  assumes "doRequest e c w req = (Inr rsp, c1, w1)"
  shows "(newRequest e c MethodGet (object @ ''/'' @ Itoa objectId @ ''/'' @ prefType) None = Inr req \<and>
          decode_EmailPreferencesResponse e (Body rsp) = Inr r \<and> UserEmailPreferences r = [] \<longrightarrow>
            fst (notificationPreferences e c w objectId object prefType) = Inl index_out_of_range) \<and>
         (newRequest e c MethodGet (object @ ''/'' @ Itoa objectId @ ''/'' @
             (if triage then ''triage_user_settings'' else ''user_settings'')) None = Inr req \<and>
          decode_UserSettingResponse e (Body rsp) = Inr r' \<and> UserSettings r' = [] \<longrightarrow>
            fst (userSettings e c w objectId object triage) = Inl index_out_of_range)"
  using assms
  by (auto simp: notificationPreferences_def userSettings_def read_Body_def Let_def)

lemma doRequest_no_data:
  "fst (doRequest env_example client_no_data world_example (request_get api)) =
     Inr (response_example 200 body_no_data)"
  by (simp add: run_defs client_no_data_def request_get_def)

theorem empty_list_panics_witness:
  "fst (notificationPreferences env_example client_no_data world_example 7 ''projects''
          ''user_email_preferences'') = Inl index_out_of_range \<and>
   fst (userSettings env_example client_no_data world_example 7 ''projects'' True) =
     Inl index_out_of_range"
proof -
  let ?d = "\<lambda>api. doRequest env_example client_no_data world_example (request_get api)"
  have d: "?d api = (Inr (response_example 200 body_no_data), fst (snd (?d api)), snd (snd (?d api)))"
    for api
    using doRequest_no_data [of api] by (metis prod.collapse)
  have a: "newRequest env_example client_no_data MethodGet
             (''projects'' @ ''/'' @ Itoa 7 @ ''/'' @ ''user_email_preferences'') None =
             Inr (request_get ''projects/7/user_email_preferences'') \<and>
           decode_EmailPreferencesResponse env_example (Body (response_example 200 body_no_data)) =
             Inr \<lparr>epr_Pagination = pagination_example 0, UserEmailPreferences = []\<rparr> \<and>
           UserEmailPreferences \<lparr>epr_Pagination = pagination_example 0, UserEmailPreferences = []\<rparr> = []"
    by (simp add: run_defs client_no_data_def request_get_def Itoa_7)
  have b: "newRequest env_example client_no_data MethodGet
             (''projects'' @ ''/'' @ Itoa 7 @ ''/'' @
                (if True then ''triage_user_settings'' else ''user_settings'')) None =
             Inr (request_get ''projects/7/triage_user_settings'') \<and>
           decode_UserSettingResponse env_example (Body (response_example 200 body_no_data)) =
             Inr \<lparr>usr_Pagination = pagination_example 0, UserSettings = []\<rparr> \<and>
           UserSettings \<lparr>usr_Pagination = pagination_example 0, UserSettings = []\<rparr> = []"
    by (simp add: run_defs client_no_data_def request_get_def Itoa_7)
  show ?thesis
    using empty_list_panics [OF d [of "''projects/7/user_email_preferences''"],
            where object = "''projects''" and objectId = 7 and prefType = "''user_email_preferences''"
              and r = "\<lparr>epr_Pagination = pagination_example 0, UserEmailPreferences = []\<rparr>"] a
          empty_list_panics [OF d [of "''projects/7/triage_user_settings''"],
            where object = "''projects''" and objectId = 7 and triage = True
              and r' = "\<lparr>usr_Pagination = pagination_example 0, UserSettings = []\<rparr>"] b
    by blast
qed

text \<open>On a list without entries both operations panic; what they give is not an error value.\<close>

theorem notificationPreferences_empty_counterexample:
  "fst (notificationPreferences env_example client_no_data world_example 7 ''projects''
          ''user_email_preferences'') =
     Inl (Panic ''runtime error: index out of range [0] with length 0'') \<and>
   fst (userSettings env_example client_no_data world_example 7 ''workspaces'' False) =
     Inl (Panic ''runtime error: index out of range [0] with length 0'')"
  by (simp add: notificationPreferences_def userSettings_def index_out_of_range_def Itoa_7
        doRequest.simps doRequest_authorize.simps doRequest_send_def
        doRequest_log_def newRequest_def time_Now_def Let_def read_Body_def
        MethodGet_def StatusBadRequest_def body_no_data_def client_no_data_def fixture_defs)

section \<open>disableNotifications\<close>

lemma sublist_mid: "sublist xs (a @ b @ xs @ c)"
proof -
  have "a @ b @ xs @ c = (a @ b) @ xs @ c" by simp
  then show ?thesis by (metis sublist_appendI)
qed

text \<open>
  C6. Let the request be built and answered, and the answer's body decode to \<open>i\<close>. If \<open>i\<close> is
  an object with the key \<^verbatim>\<open>error\<close>, disableNotifications returns an error whose message
  holds the request's URL (the base URL followed by the path) and the payload as \<^verbatim>\<open>%s\<close>
  renders it, which for a string is the string itself. If \<open>i\<close> is an object without that key,
  or no object at all, disableNotifications returns without an error.
\<close>

theorem disableNotifications_error_key:
  assumes "path = object @ ''/'' @ Itoa objectId @ ''/'' @ prefType @ ''/'' @ Itoa prefId"
    and "newRequest e c MethodPut path body = Inr req"
    and "doRequest e c w req = (Inr rsp, c1, w1)"
    and "decode_interface e (Body rsp) = Inr i"
    and "message = ''error disabling notifications for '' @ apiBaseUrl c @ path @ '': '' @ Sprint_s e msg"
  shows "(i = JObject m \<and> m ''error'' = Some msg \<longrightarrow>
            fst (disableNotifications e c w objectId object prefId prefType body) = Inl (Error message) \<and>
            URL req = apiBaseUrl c @ path \<and>
            sublist (URL req) message \<and> sublist path message \<and> sublist (Sprint_s e msg) message \<and>
            (\<forall>s. msg = JString s \<longrightarrow> sublist s message)) \<and>
         ((case i of JObject m' \<Rightarrow> m' ''error'' = None | _ \<Rightarrow> True) \<longrightarrow>
            fst (disableNotifications e c w objectId object prefId prefType body) = Inr ())"
proof -
  have u: "URL req = apiBaseUrl c @ path"
    using assms(2) by (auto simp: newRequest_def split: option.splits)
  have s1: "sublist (apiBaseUrl c @ path) message"
    unfolding assms(5) by (metis append.assoc sublist_appendI)
  have s2: "sublist path message"
    unfolding assms(5) by (rule sublist_mid)
  have s3: "sublist (Sprint_s e msg) message"
    unfolding assms(5) by (metis append.assoc sublist_append_leftI)
  have s4: "msg = JString s \<Longrightarrow> sublist s message" for s
    using s3 by (simp add: Sprint_s_def)
  have r: "i = JObject m \<Longrightarrow> m ''error'' = Some msg \<Longrightarrow>
      fst (disableNotifications e c w objectId object prefId prefType body) = Inl (Error message)"
    using assms u by (simp add: disableNotifications_def read_Body_def)
  have ok: "(case i of JObject m' \<Rightarrow> m' ''error'' = None | _ \<Rightarrow> True) \<Longrightarrow>
      fst (disableNotifications e c w objectId object prefId prefType body) = Inr ()"
    using assms(1-4) by (auto simp: disableNotifications_def read_Body_def split: jvalue.splits)
  show ?thesis
    using u s1 s2 s3 s4 r ok by simp
qed

lemma doRequest_answer:
  "fst (doRequest env_example (client_answer tx) world_example
          ((request_get api)\<lparr>Method := m, ReqBody := b\<rparr>)) =
     (if 200 = StatusBadRequest then Inl (Error (''bad request: '' @ tx))
      else Inr (response_example 200 tx))"
  by (simp add: doRequest.simps doRequest_authorize.simps doRequest_send_def doRequest_log_def
        time_Now_def Let_def client_answer_def request_get_def fixture_defs)

text \<open>The two bodies of the specification: \<^verbatim>\<open>{"error": "bad id"}\<close> and \<^verbatim>\<open>{"status":"ok"}\<close>.\<close>

theorem disableNotifications_error_key_witness:
  "fst (disableNotifications env_example (client_answer body_error) world_example 7 ''projects'' 42
          ''user_email_preferences'' (Some ''{}'')) =
     Inl (Error (''error disabling notifications for '' @
                 ''https://zube.io/api/projects/7/user_email_preferences/42'' @ '': bad id'')) \<and>
   sublist ''projects/7/user_email_preferences/42''
     (''error disabling notifications for '' @
      ''https://zube.io/api/projects/7/user_email_preferences/42'' @ '': bad id'') \<and>
   sublist ''bad id''
     (''error disabling notifications for '' @
      ''https://zube.io/api/projects/7/user_email_preferences/42'' @ '': bad id'') \<and>
   fst (disableNotifications env_example (client_answer body_ok) world_example 7 ''projects'' 42
          ''user_email_preferences'' (Some ''{}'')) = Inr ()"
proof -
  let ?d = "\<lambda>b. doRequest env_example (client_answer b) world_example request_put"
  have d: "?d b = (Inr (response_example 200 b), fst (snd (?d b)), snd (snd (?d b)))"
    for b
    using doRequest_answer [where tx = b and api = "''projects/7/user_email_preferences/42''"
            and m = "''PUT''" and b = "Some ''{}''"]
    by (simp add: request_put_def StatusBadRequest_def) (metis prod.collapse)
  have p: "''projects/7/user_email_preferences/42'' =
           ''projects'' @ ''/'' @ Itoa 7 @ ''/'' @ ''user_email_preferences'' @ ''/'' @ Itoa 42"
    by (simp add: Itoa_7 Itoa_42)
  have n: "newRequest env_example (client_answer b) MethodPut
             ''projects/7/user_email_preferences/42'' (Some ''{}'') = Inr request_put" for b
    by (simp add: newRequest_def MethodPut_def request_put_def request_get_def client_answer_def
          fixture_defs)
  have e: "decode_interface env_example (Body (response_example 200 body_error)) =
             Inr (JObject [''error'' \<mapsto> JString ''bad id''])"
    by (simp add: fixture_defs body_error_def body_ok_def)
  have k: "decode_interface env_example (Body (response_example 200 body_ok)) =
             Inr (JObject [''status'' \<mapsto> JString ''ok''])"
    by (simp add: fixture_defs body_error_def body_ok_def)
  have t: "''error disabling notifications for '' @
           ''https://zube.io/api/projects/7/user_email_preferences/42'' @ '': bad id'' =
           ''error disabling notifications for '' @ apiBaseUrl (client_answer body_error) @
           ''projects/7/user_email_preferences/42'' @ '': '' @ Sprint_s env_example (JString ''bad id'')"
    by (simp add: Sprint_s_def client_answer_def fixture_defs)
  have m: "[''error'' \<mapsto> JString ''bad id''] ''error'' = Some (JString ''bad id'')"
    by simp
  have o: "(case JObject [''status'' \<mapsto> JString ''ok''] of
              JObject m' \<Rightarrow> m' ''error'' = None | _ \<Rightarrow> True)"
    by simp
  show ?thesis
    using disableNotifications_error_key [OF p n d e t, of "[''error'' \<mapsto> JString ''bad id'']"] m
          disableNotifications_error_key [OF p n d k refl] o
    by blast
qed

section \<open>The preference maps: enabled and disableAll\<close>

lemma disableAll_apply:
  "disableAll ks m k = (if k \<in> set ks \<and> m k = Some (JBool True) then Some (JBool False) else m k)"
proof (induction ks arbitrary: m k)
  case Nil
  show ?case by simp
next
  case (Cons a ks)
  show ?case
    by (cases "m a") (auto simp: Cons.IH split: jvalue.splits)
qed

lemma enabled_empty: "(\<forall>k \<in> set ks. m k \<noteq> Some (JBool True)) \<Longrightarrow> enabled ks m = []"
  by (induction ks) (auto split: option.splits jvalue.splits)

text \<open>
  C5. Whatever the order \<open>ks\<close> in which the loop visits the keys of the map \<open>m\<close>, disableAll
  turns every entry that is the boolean true into the boolean false and leaves every other
  entry (a boolean false, a number, a string, an absent key) as it was.
\<close>

theorem disableAll_flips_true_only:
  assumes "set ks = dom m"
  shows "disableAll ks m = (\<lambda>k. if m k = Some (JBool True) then Some (JBool False) else m k)"
proof
  fix k
  from assms have "m k = Some (JBool True) \<Longrightarrow> k \<in> set ks" by auto
  then show "disableAll ks m k = (if m k = Some (JBool True) then Some (JBool False) else m k)"
    by (auto simp: disableAll_apply)
qed

text \<open>The map of the specification's example becomes the map the specification gives.\<close>

theorem disableAll_flips_true_only_witness:
  "set [''email'', ''slack'', ''id'', ''email_address''] = dom pref_example \<and>
   disableAll [''email'', ''slack'', ''id'', ''email_address''] pref_example =
     [''email'' \<mapsto> JBool False, ''slack'' \<mapsto> JBool False,
      ''id'' \<mapsto> JNumber 7, ''email_address'' \<mapsto> JString ''a@b.com'']"
proof -
  have d: "set [''email'', ''slack'', ''id'', ''email_address''] = dom pref_example"
    by (auto simp: pref_example_def split: if_splits)
  show ?thesis
    using d disableAll_flips_true_only [OF d]
    by (auto simp: pref_example_def fun_eq_iff)
qed

text \<open>
  C10. After disableAll on a map \<open>m\<close>, enabled finds no key (in whatever order \<open>ks'\<close> it
  looks), and a second disableAll (in whatever order \<open>ks''\<close>) changes nothing.
\<close>

theorem disableAll_then_enabled_empty:
  assumes "set ks = dom m"
  shows "enabled ks' (disableAll ks m) = [] \<and> disableAll ks'' (disableAll ks m) = disableAll ks m"
proof
  have t: "disableAll ks m k \<noteq> Some (JBool True)" for k
    using assms by (auto simp: disableAll_apply)
  then show "enabled ks' (disableAll ks m) = []"
    by (simp add: enabled_empty)
  show "disableAll ks'' (disableAll ks m) = disableAll ks m"
  proof
    fix k
    show "disableAll ks'' (disableAll ks m) k = disableAll ks m k"
      using t [of k] by (simp add: disableAll_apply [of ks''])
  qed
qed

theorem disableAll_then_enabled_empty_witness:
  "set [''slack'', ''email'', ''id'', ''email_address''] = dom pref_example \<and>
   enabled [''id'', ''email'', ''email_address'', ''slack'']
     (disableAll [''slack'', ''email'', ''id'', ''email_address''] pref_example) = [] \<and>
   disableAll [''email'', ''id'', ''slack'', ''email_address'']
     (disableAll [''slack'', ''email'', ''id'', ''email_address''] pref_example) =
   disableAll [''slack'', ''email'', ''id'', ''email_address''] pref_example \<and>
   enabled [''id'', ''email'', ''email_address'', ''slack''] pref_example = [''email'']"
proof -
  have d: "set [''slack'', ''email'', ''id'', ''email_address''] = dom pref_example"
    by (auto simp: pref_example_def split: if_splits)
  have e: "enabled [''id'', ''email'', ''email_address'', ''slack''] pref_example = [''email'']"
    by (simp add: pref_example_def)
  show ?thesis
    using d e disableAll_then_enabled_empty [OF d]
    by simp
qed

end
